theory Spec2Isabelle
  imports Complex_Main "HOL-Library.Multiset"
begin

section \<open>Data model\<close>

text \<open>
  The program (\<^verbatim>\<open>app.py\<close>) keeps one pandas DataFrame per indicator in the module-level
  dictionary \<^verbatim>\<open>indicator_dfs\<close>. A DataFrame is modelled by its column labels and its rows.
  A row carries the cells of the four columns the program reads; cells of further columns
  (such as \<^verbatim>\<open>Indicator\<close>) are never read and are not modelled, although their labels may
  be listed in \<open>columns\<close>. \<^verbatim>\<open>Value\<close> is a float in the source and a real number here; the
  program only compares values, and missing values (NaN) are outside the model, as are
  missing country names.
\<close>

datatype error = KeyError | IndexError

record row =
  Country :: string
  Value :: real
  Rank :: int
  Country_with_rank :: string

record DataFrame =
  columns :: "string list"
  rows :: "row list"

section \<open>The pandas operations the program uses\<close>

text \<open>
  A column is addressed by its label together with the accessor of its cells: the label
  decides whether pandas raises \<^verbatim>\<open>KeyError\<close>, the accessor reads the cells.
\<close>

definition getitem :: "string \<Rightarrow> (row \<Rightarrow> 'a) \<Rightarrow> DataFrame \<Rightarrow> error + 'a list" where
  \<comment> \<open>\<^verbatim>\<open>df[label]\<close>: the cells of one column, in row order.\<close>
  "getitem label cell df =
     (if label \<in> set (columns df) then Inr (map cell (rows df)) else Inl KeyError)"

definition boolean_mask :: "bool list \<Rightarrow> row list \<Rightarrow> row list" where
  \<comment> \<open>The rows at the positions where the mask is true.\<close>
  "boolean_mask msk xs = map fst (filter snd (zip xs msk))"

definition getitem_mask :: "bool list \<Rightarrow> DataFrame \<Rightarrow> DataFrame" where
  \<comment> \<open>\<^verbatim>\<open>df[mask]\<close>\<close>
  "getitem_mask msk df = df\<lparr>rows := boolean_mask msk (rows df)\<rparr>"

definition loc :: "bool list \<Rightarrow> string \<Rightarrow> (row \<Rightarrow> 'a) \<Rightarrow> DataFrame \<Rightarrow> error + 'a list" where
  \<comment> \<open>\<^verbatim>\<open>df.loc[mask, label]\<close>\<close>
  "loc msk label cell df =
     (if label \<in> set (columns df) then Inr (map cell (boolean_mask msk (rows df)))
      else Inl KeyError)"

definition iloc0 :: "'a list \<Rightarrow> error + 'a" where
  \<comment> \<open>\<^verbatim>\<open>series.iloc[0]\<close>: raises \<^verbatim>\<open>IndexError\<close> on an empty series.\<close>
  "iloc0 xs = (case xs of [] \<Rightarrow> Inl IndexError | x # _ \<Rightarrow> Inr x)"

definition series_max :: "int list \<Rightarrow> int option" where
  \<comment> \<open>\<^verbatim>\<open>series.max()\<close>; \<open>None\<close> stands for the NaN of an empty series.\<close>
  "series_max xs = (case xs of [] \<Rightarrow> None | x # ys \<Rightarrow> Some (fold max ys x))"

definition isin :: "string option \<Rightarrow> string list \<Rightarrow> bool" where
  \<comment> \<open>\<^verbatim>\<open>key in series.values\<close>; \<^verbatim>\<open>None\<close> is found only among missing values, of which
      the modelled tables have none.\<close>
  "isin k vals = (case k of None \<Rightarrow> False | Some c \<Rightarrow> c \<in> set vals)"

definition argsort_rows :: "(row \<Rightarrow> 'k::linorder) \<Rightarrow> bool \<Rightarrow> row list \<Rightarrow> row list" where
  \<comment> \<open>Ordering of the rows by one column. Descending order reverses, sorts and reverses
      again, as pandas does. Rows with equal keys keep their original order here; pandas
      leaves their order to the sorting algorithm, and no fact proved below depends on
      it.\<close>
  "argsort_rows k ascending xs =
     (if ascending then sort_key k xs else rev (sort_key k (rev xs)))"

definition sort_values ::
  "string \<Rightarrow> (row \<Rightarrow> 'k::linorder) \<Rightarrow> bool \<Rightarrow> DataFrame \<Rightarrow> error + DataFrame" where
  \<comment> \<open>\<^verbatim>\<open>df.sort_values(by=label, ascending=...)\<close>\<close>
  "sort_values label k ascending df =
     (if label \<in> set (columns df) then Inr (df\<lparr>rows := argsort_rows k ascending (rows df)\<rparr>)
      else Inl KeyError)"

definition nlargest ::
  "nat \<Rightarrow> string \<Rightarrow> (row \<Rightarrow> 'k::linorder) \<Rightarrow> DataFrame \<Rightarrow> error + DataFrame" where
  \<comment> \<open>\<^verbatim>\<open>df.nlargest(n, label)\<close>: the first \<open>n\<close> rows in descending order of the column.\<close>
  "nlargest n label k df =
     (if label \<in> set (columns df) then Inr (df\<lparr>rows := take n (argsort_rows k False (rows df))\<rparr>)
      else Inl KeyError)"

definition nsmallest ::
  "nat \<Rightarrow> string \<Rightarrow> (row \<Rightarrow> 'k::linorder) \<Rightarrow> DataFrame \<Rightarrow> error + DataFrame" where
  \<comment> \<open>\<^verbatim>\<open>df.nsmallest(n, label)\<close>: the first \<open>n\<close> rows in ascending order of the column.\<close>
  "nsmallest n label k df =
     (if label \<in> set (columns df) then Inr (df\<lparr>rows := take n (argsort_rows k True (rows df))\<rparr>)
      else Inl KeyError)"

definition empty_frame :: "string list \<Rightarrow> DataFrame" where
  \<comment> \<open>\<^verbatim>\<open>pd.DataFrame(columns=labels)\<close>\<close>
  "empty_frame labels = \<lparr>columns = labels, rows = []\<rparr>"

section \<open>The selection of the rows to display\<close>

text \<open>
  \<^verbatim>\<open>return_chart_data\<close> reads the module-level dictionary, which is its first argument here;
  an unknown indicator name raises \<^verbatim>\<open>KeyError\<close>. Each pandas call that can raise is a case
  distinction, in the order of the source. The copy of the stored table has the value of the
  table; object identities are the subject of a later section.
\<close>

definition return_chart_data ::
  "(string \<rightharpoonup> DataFrame) \<Rightarrow> string \<Rightarrow> string \<Rightarrow> string option \<Rightarrow> error + DataFrame" where
  "return_chart_data indicator_dfs indicator_name mode selected_country =
     (case indicator_dfs indicator_name of
        None \<Rightarrow> Inl KeyError
      | Some df_filtered \<Rightarrow>
          if mode = ''top10'' \<or> (mode = ''country'' \<and> selected_country = None) then
            (case nlargest 10 ''Value'' Value df_filtered of
               Inl e \<Rightarrow> Inl e
             | Inr largest \<Rightarrow> sort_values ''Value'' Value True largest)
          else
            (case getitem ''Country'' Country df_filtered of
               Inl e \<Rightarrow> Inl e
             | Inr countries \<Rightarrow>
                 if \<not> isin selected_country countries then
                   Inr (empty_frame [''Country'', ''Value'', ''Rank'', ''Country_with_rank''])
                 else
                   (case loc (map (\<lambda>c. Some c = selected_country) countries) ''Rank'' Rank
                           df_filtered of
                      Inl e \<Rightarrow> Inl e
                    | Inr matching_ranks \<Rightarrow>
                   (case iloc0 matching_ranks of
                      Inl e \<Rightarrow> Inl e
                    | Inr selected_country_rank \<Rightarrow>
                   (case getitem ''Rank'' Rank df_filtered of
                      Inl e \<Rightarrow> Inl e
                    | Inr ranks \<Rightarrow>
                        let countries_count = series_max ranks in
                        if selected_country_rank \<le> 10 then
                          (case nlargest 10 ''Value'' Value df_filtered of
                             Inl e \<Rightarrow> Inl e
                           | Inr largest \<Rightarrow> sort_values ''Value'' Value True largest)
                        else if (case countries_count of
                                   None \<Rightarrow> False
                                 | Some n \<Rightarrow> selected_country_rank \<ge> n - 10) then
                          (case nsmallest 10 ''Value'' Value df_filtered of
                             Inl e \<Rightarrow> Inl e
                           | Inr smallest \<Rightarrow> sort_values ''Value'' Value True smallest)
                        else
                          (case getitem ''Rank'' Rank df_filtered of
                             Inl e \<Rightarrow> Inl e
                           | Inr ranks' \<Rightarrow>
                               sort_values ''Rank'' Rank True
                                 (getitem_mask
                                    (map (\<lambda>k. k \<ge> selected_country_rank - 5
                                              \<and> k \<le> selected_country_rank + 4) ranks')
                                    df_filtered)))))))"


section \<open>The callers of the selection\<close>

definition getitem_columns :: "string list \<Rightarrow> DataFrame \<Rightarrow> error + DataFrame" where
  \<comment> \<open>\<^verbatim>\<open>df[[label, ...]]\<close>: the frame restricted to the listed columns.\<close>
  "getitem_columns labels df =
     (if set labels \<subseteq> set (columns df) then Inr (df\<lparr>columns := labels\<rparr>) else Inl KeyError)"

definition create_bar_chart_frame ::
  "(string \<rightharpoonup> DataFrame) \<Rightarrow> string \<Rightarrow> string \<Rightarrow> string option \<Rightarrow> error + DataFrame" where
  \<comment> \<open>The frame \<^verbatim>\<open>df_chart\<close> that \<^verbatim>\<open>create_bar_chart\<close> computes in its first statement
      and then hands to the charting library.\<close>
  "create_bar_chart_frame indicator_dfs indicator_name mode selected_country =
     (case return_chart_data indicator_dfs indicator_name mode selected_country of
        Inl e \<Rightarrow> Inl e
      | Inr df \<Rightarrow> sort_values ''Rank'' Rank False df)"

definition create_countries_list ::
  "(string \<rightharpoonup> DataFrame) \<Rightarrow> string \<Rightarrow> string \<Rightarrow> string option
     \<Rightarrow> error + (string \<times> string) list list" where
  \<comment> \<open>The \<^verbatim>\<open>data\<close> of the table widget: one record per row, each an association list
      with the single key \<^verbatim>\<open>Country_with_rank\<close>. The other arguments of the widget are
      constants.\<close>
  "create_countries_list indicator_dfs indicator_name mode selected_country =
     (case return_chart_data indicator_dfs indicator_name mode selected_country of
        Inl e \<Rightarrow> Inl e
      | Inr df \<Rightarrow>
     (case sort_values ''Rank'' Rank True df of
        Inl e \<Rightarrow> Inl e
      | Inr df_chart \<Rightarrow>
     (case getitem_columns [''Country_with_rank''] df_chart of
        Inl e \<Rightarrow> Inl e
      | Inr shown \<Rightarrow>
          Inr (map (\<lambda>r. [(''Country_with_rank'', Country_with_rank r)]) (rows shown)))))"

definition truthy :: "string option \<Rightarrow> bool" where
  \<comment> \<open>Python's truth value of the dropdown's value: \<^verbatim>\<open>None\<close> and the empty string are
      false.\<close>
  "truthy country = (case country of None \<Rightarrow> False | Some c \<Rightarrow> c \<noteq> [])"

datatype call =
  Create_chart string string "string option"
| Return_chart_data string string "string option"

fun call_mode :: "call \<Rightarrow> string" where
  "call_mode (Create_chart indicator_name m c) = m"
| "call_mode (Return_chart_data indicator_name m c) = m"

fun call_country :: "call \<Rightarrow> string option" where
  "call_country (Create_chart indicator_name m c) = c"
| "call_country (Return_chart_data indicator_name m c) = c"

definition update_all :: "string \<Rightarrow> string option \<Rightarrow> string list \<Rightarrow> string list \<Rightarrow> call list" where
  \<comment> \<open>The calls the callback makes, in order, with the arguments it passes: one
      \<^verbatim>\<open>create_chart\<close> per chart id, then one \<^verbatim>\<open>return_chart_data\<close> per table id. An id is
      represented by its indicator name. A call that raises ends the callback, which
      then has made a prefix of these calls.\<close>
  "update_all mode country chart_ids table_ids =
     (let current_mode = (if mode = ''country'' \<and> truthy country then ''country'' else ''top10'')
      in map (\<lambda>indicator_name. Create_chart indicator_name current_mode country) chart_ids @
         map (\<lambda>indicator_name. Return_chart_data indicator_name current_mode country) table_ids)"

section \<open>The selection with object identities\<close>

text \<open>
  In Python the dictionary \<^verbatim>\<open>indicator_dfs\<close> holds references to DataFrame objects. To
  speak about what a call leaves unchanged, the store lists the DataFrame objects by
  address and maps each indicator name to the address of its table. Every pandas call of
  \<^verbatim>\<open>return_chart_data\<close> that yields a DataFrame (\<^verbatim>\<open>copy\<close>, \<^verbatim>\<open>nlargest\<close>, \<^verbatim>\<open>nsmallest\<close>,
  \<^verbatim>\<open>sort_values\<close>, indexing by a mask, the constructor) builds a new object; none writes
  to an existing one.
\<close>

record store =
  heap :: "DataFrame list"
  indicator_dfs_global :: "string \<rightharpoonup> nat"

definition new_frame :: "DataFrame \<Rightarrow> store \<Rightarrow> nat \<times> store" where
  "new_frame df s = (length (heap s), s\<lparr>heap := heap s @ [df]\<rparr>)"

definition method_call ::
  "(DataFrame \<Rightarrow> error + DataFrame) \<Rightarrow> nat \<Rightarrow> store \<Rightarrow> (error + nat) \<times> store" where
  \<comment> \<open>A pandas method applied to the object at an address; its result is a new object.\<close>
  "method_call f a s =
     (case f (heap s ! a) of
        Inl e \<Rightarrow> (Inl e, s)
      | Inr df \<Rightarrow> (case new_frame df s of (a', s') \<Rightarrow> (Inr a', s')))"

definition then_call ::
  "(error + nat) \<times> store \<Rightarrow> (DataFrame \<Rightarrow> error + DataFrame) \<Rightarrow> (error + nat) \<times> store" where
  \<comment> \<open>Method chaining: \<^verbatim>\<open>expr.method(...)\<close>.\<close>
  "then_call r f = (case r of (Inl e, s) \<Rightarrow> (Inl e, s) | (Inr a, s) \<Rightarrow> method_call f a s)"

definition return_chart_data_store ::
  "string \<Rightarrow> string \<Rightarrow> string option \<Rightarrow> store \<Rightarrow> (error + nat) \<times> store" where
  "return_chart_data_store indicator_name mode selected_country s =
     (case indicator_dfs_global s indicator_name of
        None \<Rightarrow> (Inl KeyError, s)
      | Some stored \<Rightarrow>
     (case new_frame (heap s ! stored) s of (df_filtered, s1) \<Rightarrow>
          if mode = ''top10'' \<or> (mode = ''country'' \<and> selected_country = None) then
            then_call (method_call (nlargest 10 ''Value'' Value) df_filtered s1)
              (sort_values ''Value'' Value True)
          else
            (case getitem ''Country'' Country (heap s1 ! df_filtered) of
               Inl e \<Rightarrow> (Inl e, s1)
             | Inr countries \<Rightarrow>
                 if \<not> isin selected_country countries then
                   (case new_frame
                      (empty_frame [''Country'', ''Value'', ''Rank'', ''Country_with_rank'']) s1 of
                      (a, s2) \<Rightarrow> (Inr a, s2))
                 else
                   (case loc (map (\<lambda>c. Some c = selected_country) countries) ''Rank'' Rank
                           (heap s1 ! df_filtered) of
                      Inl e \<Rightarrow> (Inl e, s1)
                    | Inr matching_ranks \<Rightarrow>
                   (case iloc0 matching_ranks of
                      Inl e \<Rightarrow> (Inl e, s1)
                    | Inr selected_country_rank \<Rightarrow>
                   (case getitem ''Rank'' Rank (heap s1 ! df_filtered) of
                      Inl e \<Rightarrow> (Inl e, s1)
                    | Inr ranks \<Rightarrow>
                        let countries_count = series_max ranks in
                        if selected_country_rank \<le> 10 then
                          then_call (method_call (nlargest 10 ''Value'' Value) df_filtered s1)
                            (sort_values ''Value'' Value True)
                        else if (case countries_count of
                                   None \<Rightarrow> False
                                 | Some n \<Rightarrow> selected_country_rank \<ge> n - 10) then
                          then_call (method_call (nsmallest 10 ''Value'' Value) df_filtered s1)
                            (sort_values ''Value'' Value True)
                        else
                          (case getitem ''Rank'' Rank (heap s1 ! df_filtered) of
                             Inl e \<Rightarrow> (Inl e, s1)
                           | Inr ranks' \<Rightarrow>
                               then_call
                                 (method_call
                                    (\<lambda>df. Inr (getitem_mask
                                       (map (\<lambda>k. k \<ge> selected_country_rank - 5
                                                 \<and> k \<le> selected_country_rank + 4) ranks') df))
                                    df_filtered s1)
                                 (sort_values ''Rank'' Rank True))))))))"

definition stored_tables :: "store \<Rightarrow> (string \<rightharpoonup> DataFrame)" where
  \<comment> \<open>The dictionary as the tables it refers to.\<close>
  "stored_tables s = (\<lambda>indicator_name.
     case indicator_dfs_global s indicator_name of None \<Rightarrow> None | Some a \<Rightarrow> Some (heap s ! a))"

definition frame_of :: "store \<Rightarrow> error + nat \<Rightarrow> error + DataFrame" where
  \<comment> \<open>The frame a returned reference points to.\<close>
  "frame_of s r = (case r of Inl e \<Rightarrow> Inl e | Inr a \<Rightarrow> Inr (heap s ! a))"

definition call_returns :: "store \<Rightarrow> (error + nat) \<times> store \<Rightarrow> error + DataFrame \<Rightarrow> bool" where
  \<comment> \<open>A call started in store \<open>s\<close> ends with the value \<open>v\<close>: it has only added objects,
      the dictionary is as before, and a returned reference points to an added object
      that holds \<open>v\<close>.\<close>
  "call_returns s out v \<longleftrightarrow>
     (case out of (r, s') \<Rightarrow>
        (\<exists>new. heap s' = heap s @ new)
      \<and> indicator_dfs_global s' = indicator_dfs_global s
      \<and> frame_of s' r = v
      \<and> (case r of Inl e \<Rightarrow> True | Inr a' \<Rightarrow> length (heap s) \<le> a' \<and> a' < length (heap s')))"

section \<open>The tables the program is given\<close>

text \<open>
  The data file is not part of the program. Its tables have the four columns the program
  reads, name every country once, and rank the \<open>N\<close> countries of a table \<open>1, \<dots>, N\<close>
  without gaps or repetitions. The order of the rows is not constrained.
\<close>

definition indicator_table :: "DataFrame \<Rightarrow> bool" where
  "indicator_table tbl \<longleftrightarrow>
     set [''Country'', ''Value'', ''Rank'', ''Country_with_rank''] \<subseteq> set (columns tbl) \<and>
     distinct (map Country (rows tbl)) \<and>
     sort (map Rank (rows tbl)) = [1..int (length (rows tbl))]"

text \<open>An example: 25 countries, ranked by a decreasing value.\<close>

definition example_countries :: "string list" where
  "example_countries =
     [''India'', ''China'', ''United States'', ''Indonesia'', ''Pakistan'', ''Nigeria'',
      ''Brazil'', ''Bangladesh'', ''Russia'', ''Ethiopia'', ''Mexico'', ''Japan'',
      ''Egypt'', ''Philippines'', ''Vietnam'', ''Iran'', ''Turkey'', ''Germany'',
      ''Thailand'', ''Tanzania'', ''France'', ''Italy'', ''Kenya'', ''Colombia'', ''Spain'']"

definition example_row :: "int \<times> string \<Rightarrow> row" where
  "example_row p = (case p of (i, c) \<Rightarrow>
     \<lparr>Country = c, Value = 1500 - 50 * of_int i, Rank = i, Country_with_rank = c\<rparr>)"

definition example_table :: DataFrame where
  "example_table =
     \<lparr>columns = [''Indicator'', ''Country'', ''Value'', ''Rank'', ''Country_with_rank''],
      rows = map example_row (zip [1..25] example_countries)\<rparr>"

definition example_dfs :: "string \<rightharpoonup> DataFrame" where
  "example_dfs = [''Population'' \<mapsto> example_table]"

definition example_store :: store where
  "example_store = \<lparr>heap = [example_table], indicator_dfs_global = [''Population'' \<mapsto> 0]\<rparr>"

definition example_first_call :: "(error + nat) \<times> store" where
  "example_first_call =
     return_chart_data_store ''Population'' ''country'' (Some ''Japan'') example_store"

definition example_second_call :: "(error + nat) \<times> store" where
  "example_second_call =
     return_chart_data_store ''Population'' ''country'' (Some ''Japan'') (snd example_first_call)"

definition empty_table :: DataFrame where
  "empty_table =
     \<lparr>columns = [''Indicator'', ''Country'', ''Value'', ''Rank'', ''Country_with_rank''],
      rows = []\<rparr>"

section \<open>Auxiliary facts\<close>

lemma boolean_mask_filter: "boolean_mask (map P xs) xs = filter P xs"
  by (induction xs) (simp_all add: boolean_mask_def)

lemma mset_argsort_rows: "mset (argsort_rows k asc xs) = mset xs"
  by (simp add: argsort_rows_def)

lemma set_argsort_rows: "set (argsort_rows k asc xs) = set xs"
  by (simp add: argsort_rows_def)

lemma length_argsort_rows: "length (argsort_rows k asc xs) = length xs"
  by (simp add: argsort_rows_def)

lemma sorted_argsort_rows_asc: "sorted (map k (argsort_rows k True xs))"
  by (simp add: argsort_rows_def)

lemma sorted_argsort_rows_desc: "sorted_wrt (\<lambda>a b. k b \<le> k a) (argsort_rows k False xs)"
proof -
  have "sorted (map k (sort_key k (rev xs)))" by simp
  then have "sorted_wrt (\<lambda>a b. k a \<le> k b) (sort_key k (rev xs))"
    by (simp add: sorted_map)
  then show ?thesis
    by (simp add: argsort_rows_def sorted_wrt_rev)
qed

lemma sorted_wrt_take_drop:
  assumes "sorted_wrt P ys"
  shows "\<forall>b \<in> set (take n ys). \<forall>a \<in> set (drop n ys). P b a"
proof -
  have "sorted_wrt P (take n ys @ drop n ys)" using assms by simp
  then show ?thesis unfolding sorted_wrt_append by blast
qed

lemma mset_drop_diff: "mset xs - mset (take n xs) = mset (drop n xs)"
proof -
  have "mset xs = mset (take n xs) + mset (drop n xs)"
    by (metis append_take_drop_id mset_append)
  then show ?thesis by simp
qed

lemma filter_distinct_key:
  "distinct (map f xs) \<Longrightarrow> x \<in> set xs \<Longrightarrow> filter (\<lambda>y. f y = f x) xs = [x]"
proof (induction xs)
  case Nil
  then show ?case by simp
next
  case (Cons a xs)
  show ?case
  proof (cases "a = x")
    case True
    with Cons.prems have "\<forall>y \<in> set xs. f y \<noteq> f x" by (auto simp: image_iff)
    then have "filter (\<lambda>y. f y = f x) xs = []" by (simp add: filter_empty_conv)
    with True show ?thesis by simp
  next
    case False
    with Cons.prems have "x \<in> set xs" and "f a \<noteq> f x" by auto
    with Cons show ?thesis by simp
  qed
qed

lemma series_max_Max:
  assumes "xs \<noteq> []"
  shows "series_max xs = Some (Max (set xs))"
proof -
  obtain x ys where xs: "xs = x # ys" using assms by (cases xs) auto
  have "fold max ys x = Max (set (x # ys))" by (rule Max.set_eq_fold [symmetric])
  then show ?thesis unfolding xs series_max_def by simp
qed

lemma dense_ranks_set:
  assumes "sort ranks = [1..int (length ranks)]"
  shows "set ranks = {1..int (length ranks)}" and "distinct ranks"
proof -
  have "set ranks = set (sort ranks)" by simp
  also have "\<dots> = {1..int (length ranks)}" unfolding assms by simp
  finally show "set ranks = {1..int (length ranks)}" .
  have "distinct (sort ranks)" unfolding assms by simp
  then show "distinct ranks" by simp
qed

lemma series_max_dense:
  assumes "sort ranks = [1..int (length ranks)]" and "ranks \<noteq> []"
  shows "series_max ranks = Some (int (length ranks))"
proof -
  have n: "1 \<le> int (length ranks)" using assms(2) by (cases ranks) auto
  have "Max {1..int (length ranks)} = int (length ranks)"
    by (rule Max_eqI) (use n in auto)
  then show ?thesis
    using series_max_Max [OF assms(2)] dense_ranks_set(1) [OF assms(1)] by simp
qed

lemma neighbours_ranks:
  assumes "sort ranks = [1..int (length ranks)]"
    and "1 \<le> lo" and "hi \<le> int (length ranks)"
  shows "sort (filter (\<lambda>k. lo \<le> k \<and> k \<le> hi) ranks) = [lo..hi]"
proof -
  let ?ys = "sort (filter (\<lambda>k. lo \<le> k \<and> k \<le> hi) ranks)"
  have "set ?ys = {lo..hi}"
    using dense_ranks_set(1) [OF assms(1)] assms(2,3) by auto
  moreover have "distinct ?ys"
    using dense_ranks_set(2) [OF assms(1)] by simp
  moreover have "sorted ?ys" by simp
  ultimately show ?thesis
    by (metis sorted_distinct_set_unique sorted_upto distinct_upto set_upto)
qed


lemma lookup_finds_row:
  assumes "isin sel (map Country xs)"
  shows "boolean_mask (map (\<lambda>c. Some c = sel) (map Country xs)) xs \<noteq> []"
proof -
  obtain c where sel: "sel = Some c" and "c \<in> Country ` set xs"
    using assms by (cases sel) (auto simp: isin_def)
  then obtain x where "x \<in> set xs" and "Country x = c" by auto
  then have "filter (\<lambda>y. Some (Country y) = sel) xs \<noteq> []"
    unfolding sel by (auto simp: filter_empty_conv)
  then show ?thesis by (simp add: boolean_mask_filter comp_def)
qed

lemma return_chart_data_top:
  assumes "indicator_dfs indicator_name = Some tbl"
    and "''Value'' \<in> set (columns tbl)"
    and "mode = ''top10'' \<or> (mode = ''country'' \<and> selected_country = None)"
  shows "return_chart_data indicator_dfs indicator_name mode selected_country =
           Inr (tbl\<lparr>rows := argsort_rows Value True
                               (take 10 (argsort_rows Value False (rows tbl)))\<rparr>)"
  using assms by (auto simp: return_chart_data_def nlargest_def sort_values_def)

lemma return_chart_data_present:
  assumes "indicator_dfs indicator_name = Some tbl"
    and "''Country'' \<in> set (columns tbl)" and "''Rank'' \<in> set (columns tbl)"
    and "''Value'' \<in> set (columns tbl)"
    and "distinct (map Country (rows tbl))"
    and "x \<in> set (rows tbl)"
    and "mode \<noteq> ''top10''"
  shows "return_chart_data indicator_dfs indicator_name mode (Some (Country x)) =
     Inr (tbl\<lparr>rows :=
        (if Rank x \<le> 10
           then argsort_rows Value True (take 10 (argsort_rows Value False (rows tbl)))
         else if (case series_max (map Rank (rows tbl)) of
                    None \<Rightarrow> False | Some n \<Rightarrow> n - 10 \<le> Rank x)
           then argsort_rows Value True (take 10 (argsort_rows Value True (rows tbl)))
         else argsort_rows Rank True
                (filter (\<lambda>y. Rank x - 5 \<le> Rank y \<and> Rank y \<le> Rank x + 4) (rows tbl)))\<rparr>)"
proof -
  have m: "filter (\<lambda>y. Country y = Country x) (rows tbl) = [x]"
    by (rule filter_distinct_key [OF assms(5,6)])
  have i: "isin (Some (Country x)) (map Country (rows tbl))"
    using assms(6) by (simp add: isin_def)
  show ?thesis
    using assms(1-4,7) i
    by (simp add: return_chart_data_def getitem_def loc_def m iloc0_def nlargest_def
          nsmallest_def sort_values_def getitem_mask_def boolean_mask_filter comp_def Let_def)
qed

lemma mset_take_subseteq: "mset (take n xs) \<subseteq># mset xs"
proof -
  have "mset xs = mset (take n xs) + mset (drop n xs)"
    by (metis append_take_drop_id mset_append)
  then show ?thesis by simp
qed

lemma largest_rows:
  fixes k :: "row \<Rightarrow> 'k::linorder"
  defines "sel \<equiv> \<lambda>n xs. argsort_rows k True (take n (argsort_rows k False xs))"
  shows "length (sel n xs) = min n (length xs)"
    and "mset (sel n xs) \<subseteq># mset xs"
    and "\<forall>b \<in> set (sel n xs). \<forall>a \<in># mset xs - mset (sel n xs). k a \<le> k b"
    and "sorted_wrt (\<lambda>a b. k a \<le> k b) (sel n xs)"
proof -
  let ?ys = "argsort_rows k False xs"
  have m: "mset (sel n xs) = mset (take n ?ys)"
    by (simp add: sel_def mset_argsort_rows)
  show "length (sel n xs) = min n (length xs)"
    by (simp add: sel_def length_argsort_rows)
  show "mset (sel n xs) \<subseteq># mset xs"
    using mset_take_subseteq [of n ?ys] by (simp add: m mset_argsort_rows)
  have rest: "mset xs - mset (sel n xs) = mset (drop n ?ys)"
    using mset_drop_diff [of ?ys n] by (simp add: m mset_argsort_rows)
  have "\<forall>b \<in> set (take n ?ys). \<forall>a \<in> set (drop n ?ys). k a \<le> k b"
    by (rule sorted_wrt_take_drop [OF sorted_argsort_rows_desc])
  then show "\<forall>b \<in> set (sel n xs). \<forall>a \<in># mset xs - mset (sel n xs). k a \<le> k b"
    by (simp add: rest) (simp add: sel_def set_argsort_rows)
  have "sorted (map k (sel n xs))"
    unfolding sel_def by (rule sorted_argsort_rows_asc)
  then show "sorted_wrt (\<lambda>a b. k a \<le> k b) (sel n xs)"
    by (simp add: sorted_map)
qed

lemma smallest_rows:
  fixes k :: "row \<Rightarrow> 'k::linorder"
  defines "sel \<equiv> \<lambda>n xs. argsort_rows k True (take n (argsort_rows k True xs))"
  shows "length (sel n xs) = min n (length xs)"
    and "mset (sel n xs) \<subseteq># mset xs"
    and "\<forall>b \<in> set (sel n xs). \<forall>a \<in># mset xs - mset (sel n xs). k b \<le> k a"
    and "sorted_wrt (\<lambda>a b. k a \<le> k b) (sel n xs)"
proof -
  let ?ys = "argsort_rows k True xs"
  have m: "mset (sel n xs) = mset (take n ?ys)"
    by (simp add: sel_def mset_argsort_rows)
  show "length (sel n xs) = min n (length xs)"
    by (simp add: sel_def length_argsort_rows)
  show "mset (sel n xs) \<subseteq># mset xs"
    using mset_take_subseteq [of n ?ys] by (simp add: m mset_argsort_rows)
  have rest: "mset xs - mset (sel n xs) = mset (drop n ?ys)"
    using mset_drop_diff [of ?ys n] by (simp add: m mset_argsort_rows)
  have "sorted_wrt (\<lambda>a b. k a \<le> k b) ?ys"
    using sorted_argsort_rows_asc [of k xs] by (simp add: sorted_map)
  then have "\<forall>b \<in> set (take n ?ys). \<forall>a \<in> set (drop n ?ys). k b \<le> k a"
    by (rule sorted_wrt_take_drop)
  then show "\<forall>b \<in> set (sel n xs). \<forall>a \<in># mset xs - mset (sel n xs). k b \<le> k a"
    by (simp add: rest) (simp add: sel_def set_argsort_rows)
  have "sorted (map k (sel n xs))"
    unfolding sel_def by (rule sorted_argsort_rows_asc)
  then show "sorted_wrt (\<lambda>a b. k a \<le> k b) (sel n xs)"
    by (simp add: sorted_map)
qed

lemma indicator_table_columns:
  assumes "indicator_table tbl"
  shows "''Country'' \<in> set (columns tbl)" and "''Value'' \<in> set (columns tbl)"
    and "''Rank'' \<in> set (columns tbl)" and "''Country_with_rank'' \<in> set (columns tbl)"
  using assms by (simp_all add: indicator_table_def)

lemma indicator_table_rank_range:
  assumes "indicator_table tbl" and "x \<in> set (rows tbl)"
  shows "1 \<le> Rank x" and "Rank x \<le> int (length (rows tbl))"
proof -
  have "sort (map Rank (rows tbl)) = [1..int (length (map Rank (rows tbl)))]"
    using assms(1) by (simp add: indicator_table_def)
  then have "set (map Rank (rows tbl)) = {1..int (length (map Rank (rows tbl)))}"
    by (rule dense_ranks_set(1))
  moreover have "Rank x \<in> set (map Rank (rows tbl))" using assms(2) by simp
  ultimately show "1 \<le> Rank x" and "Rank x \<le> int (length (rows tbl))" by simp_all
qed

lemma indicator_table_count:
  assumes "indicator_table tbl" and "rows tbl \<noteq> []"
  shows "series_max (map Rank (rows tbl)) = Some (int (length (rows tbl)))"
proof -
  have "sort (map Rank (rows tbl)) = [1..int (length (map Rank (rows tbl)))]"
    using assms(1) by (simp add: indicator_table_def)
  moreover have "map Rank (rows tbl) \<noteq> []" using assms(2) by simp
  ultimately have "series_max (map Rank (rows tbl)) = Some (int (length (map Rank (rows tbl))))"
    by (rule series_max_dense)
  then show ?thesis by simp
qed

lemma return_chart_data_indicator_table:
  assumes "indicator_dfs indicator_name = Some tbl"
    and "indicator_table tbl"
    and "x \<in> set (rows tbl)"
    and "mode \<noteq> ''top10''"
  shows "return_chart_data indicator_dfs indicator_name mode (Some (Country x)) =
     Inr (tbl\<lparr>rows :=
        (if Rank x \<le> 10
           then argsort_rows Value True (take 10 (argsort_rows Value False (rows tbl)))
         else if int (length (rows tbl)) - 10 \<le> Rank x
           then argsort_rows Value True (take 10 (argsort_rows Value True (rows tbl)))
         else argsort_rows Rank True
                (filter (\<lambda>y. Rank x - 5 \<le> Rank y \<and> Rank y \<le> Rank x + 4) (rows tbl)))\<rparr>)"
proof -
  have ne: "rows tbl \<noteq> []" using assms(3) by auto
  have d: "distinct (map Country (rows tbl))"
    using assms(2) by (simp add: indicator_table_def)
  have "return_chart_data indicator_dfs indicator_name mode (Some (Country x)) =
     Inr (tbl\<lparr>rows :=
        (if Rank x \<le> 10
           then argsort_rows Value True (take 10 (argsort_rows Value False (rows tbl)))
         else if (case series_max (map Rank (rows tbl)) of
                    None \<Rightarrow> False | Some n \<Rightarrow> n - 10 \<le> Rank x)
           then argsort_rows Value True (take 10 (argsort_rows Value True (rows tbl)))
         else argsort_rows Rank True
                (filter (\<lambda>y. Rank x - 5 \<le> Rank y \<and> Rank y \<le> Rank x + 4) (rows tbl)))\<rparr>)"
    using assms(1) indicator_table_columns(1,3,2) [OF assms(2)] d assms(3,4)
    by (rule return_chart_data_present)
  then show ?thesis
    by (simp add: indicator_table_count [OF assms(2) ne])
qed

lemma neighbour_rows:
  assumes "indicator_table tbl"
    and "1 \<le> lo" and "hi \<le> int (length (rows tbl))"
  defines "ys \<equiv> argsort_rows Rank True (filter (\<lambda>y. lo \<le> Rank y \<and> Rank y \<le> hi) (rows tbl))"
  shows "map Rank ys = [lo..hi]"
    and "set ys = {y \<in> set (rows tbl). lo \<le> Rank y \<and> Rank y \<le> hi}"
proof -
  let ?P = "\<lambda>k. lo \<le> k \<and> k \<le> hi"
  have dense: "sort (map Rank (rows tbl)) = [1..int (length (map Rank (rows tbl)))]"
    using assms(1) by (simp add: indicator_table_def)
  have "hi \<le> int (length (map Rank (rows tbl)))" using assms(3) by simp
  with dense assms(2) have n: "sort (filter ?P (map Rank (rows tbl))) = [lo..hi]"
    by (rule neighbours_ranks)
  have "mset (map Rank ys) = mset (filter ?P (map Rank (rows tbl)))"
    by (simp add: ys_def argsort_rows_def filter_map comp_def)
  moreover have "sorted (map Rank ys)"
    unfolding ys_def by (rule sorted_argsort_rows_asc)
  ultimately have "map Rank ys = sort (filter ?P (map Rank (rows tbl)))"
    by (metis properties_for_sort)
  then show "map Rank ys = [lo..hi]" by (simp add: n)
  show "set ys = {y \<in> set (rows tbl). lo \<le> Rank y \<and> Rank y \<le> hi}"
    by (auto simp: ys_def set_argsort_rows)
qed

lemma example_table_ok: "indicator_table example_table"
  unfolding indicator_table_def by code_simp

lemma example_dfs_Population: "example_dfs ''Population'' = Some example_table"
  by (simp add: example_dfs_def)

lemma iloc0_nonempty: "xs \<noteq> [] \<Longrightarrow> \<exists>r. iloc0 xs = Inr r"
  by (cases xs) (simp_all add: iloc0_def)

lemma matching_ranks_nonempty:
  assumes "isin sel (map Country xs)"
  shows "map Rank (boolean_mask (map (\<lambda>c. Some c = sel) (map Country xs)) xs) \<noteq> []"
  using lookup_finds_row [OF assms] by simp

lemma return_chart_data_absent:
  assumes "indicator_dfs indicator_name = Some tbl"
    and "''Country'' \<in> set (columns tbl)"
    and "\<not> (mode = ''top10'' \<or> (mode = ''country'' \<and> selected_country = None))"
    and "\<not> isin selected_country (map Country (rows tbl))"
  shows "return_chart_data indicator_dfs indicator_name mode selected_country =
           Inr (empty_frame [''Country'', ''Value'', ''Rank'', ''Country_with_rank''])"
  using assms by (auto simp: return_chart_data_def getitem_def)

lemma return_chart_data_found:
  assumes "indicator_dfs indicator_name = Some tbl"
    and "''Country'' \<in> set (columns tbl)" and "''Rank'' \<in> set (columns tbl)"
    and "''Value'' \<in> set (columns tbl)"
    and "mode \<noteq> ''top10''"
    and "filter (\<lambda>y. Country y = c) (rows tbl) = x # xs"
  shows "return_chart_data indicator_dfs indicator_name mode (Some c) =
     Inr (tbl\<lparr>rows :=
        (if Rank x \<le> 10
           then argsort_rows Value True (take 10 (argsort_rows Value False (rows tbl)))
         else if (case series_max (map Rank (rows tbl)) of
                    None \<Rightarrow> False | Some n \<Rightarrow> n - 10 \<le> Rank x)
           then argsort_rows Value True (take 10 (argsort_rows Value True (rows tbl)))
         else argsort_rows Rank True
                (filter (\<lambda>y. Rank x - 5 \<le> Rank y \<and> Rank y \<le> Rank x + 4) (rows tbl)))\<rparr>)"
proof -
  have "x \<in> set (filter (\<lambda>y. Country y = c) (rows tbl))"
    unfolding assms(6) by simp
  then have i: "isin (Some c) (map Country (rows tbl))"
    by (auto simp: isin_def)
  show ?thesis
    using assms(1-5) i
    by (simp add: return_chart_data_def getitem_def loc_def assms(6) iloc0_def nlargest_def
          nsmallest_def sort_values_def getitem_mask_def boolean_mask_filter comp_def Let_def)
qed

lemma found_or_absent:
  assumes "\<not> (mode = ''top10'' \<or> (mode = ''country'' \<and> selected_country = None))"
  shows "\<not> isin selected_country (map Country (rows tbl))
       \<or> (\<exists>c x xs. selected_country = Some c \<and> mode \<noteq> ''top10''
             \<and> filter (\<lambda>y. Country y = c) (rows tbl) = x # xs)"
proof (cases selected_country)
  case None
  then show ?thesis by (simp add: isin_def)
next
  case (Some c)
  show ?thesis
  proof (cases "filter (\<lambda>y. Country y = c) (rows tbl)")
    case Nil
    then have "c \<notin> set (map Country (rows tbl))"
      by (auto simp: filter_empty_conv)
    then show ?thesis using Some by (simp add: isin_def)
  next
    case (Cons x xs)
    then show ?thesis using Some assms by blast
  qed
qed

lemma return_chart_data_succeeds:
  assumes "indicator_dfs indicator_name = Some tbl"
    and "set [''Country'', ''Value'', ''Rank''] \<subseteq> set (columns tbl)"
  shows "\<exists>res. return_chart_data indicator_dfs indicator_name mode selected_country = Inr res"
proof (cases "mode = ''top10'' \<or> (mode = ''country'' \<and> selected_country = None)")
  case True
  have "''Value'' \<in> set (columns tbl)" using assms(2) by simp
  with assms(1) have "return_chart_data indicator_dfs indicator_name mode selected_country =
          Inr (tbl\<lparr>rows := argsort_rows Value True
                              (take 10 (argsort_rows Value False (rows tbl)))\<rparr>)"
    using True by (rule return_chart_data_top)
  then show ?thesis by simp
next
  case False
  have cols: "''Country'' \<in> set (columns tbl)" "''Rank'' \<in> set (columns tbl)"
    "''Value'' \<in> set (columns tbl)"
    using assms(2) by simp_all
  from found_or_absent [OF False, of tbl] show ?thesis
  proof (elim disjE exE conjE)
    assume absent: "\<not> isin selected_country (map Country (rows tbl))"
    with assms(1) cols(1) False
    have "return_chart_data indicator_dfs indicator_name mode selected_country =
           Inr (empty_frame [''Country'', ''Value'', ''Rank'', ''Country_with_rank''])"
      by (rule return_chart_data_absent)
    then show ?thesis by simp
  next
    fix c x xs
    assume sel: "selected_country = Some c" and m: "mode \<noteq> ''top10''"
      and f: "filter (\<lambda>y. Country y = c) (rows tbl) = x # xs"
    show ?thesis
      unfolding sel
        return_chart_data_found [where indicator_dfs = indicator_dfs
          and indicator_name = indicator_name, OF assms(1) cols m f]
      by simp
  qed
qed

lemma call_returns_error: "call_returns s (Inl e, s\<lparr>heap := heap s @ new\<rparr>) (Inl e)"
  by (simp add: call_returns_def frame_of_def)

lemma call_returns_new:
  "call_returns s (Inr (length (heap s) + length new), s\<lparr>heap := heap s @ new @ [df]\<rparr>) (Inr df)"
  by (simp add: call_returns_def frame_of_def nth_append)

lemma call_returns_chain:
  "call_returns s
     (then_call (method_call f (length (heap s)) (s\<lparr>heap := heap s @ [tbl]\<rparr>)) g)
     (case f tbl of Inl e \<Rightarrow> Inl e | Inr d \<Rightarrow> g d)"
proof (cases "f tbl")
  case (Inl e)
  then show ?thesis
    by (simp add: then_call_def method_call_def call_returns_def frame_of_def)
next
  case (Inr d)
  then show ?thesis
    by (cases "g d")
       (simp_all add: then_call_def method_call_def new_frame_def call_returns_def
          frame_of_def nth_append)
qed

lemma call_returns_chain_eq:
  assumes "v = (case f tbl of Inl e \<Rightarrow> Inl e | Inr d \<Rightarrow> g d)"
  shows "call_returns s
     (then_call (method_call f (length (heap s)) (s\<lparr>heap := heap s @ [tbl]\<rparr>)) g) v"
  unfolding assms by (rule call_returns_chain)

lemma return_chart_data_store_returns:
  assumes "indicator_dfs_global s indicator_name = Some a"
  shows "call_returns s (return_chart_data_store indicator_name mode selected_country s)
           (return_chart_data (stored_tables s) indicator_name mode selected_country)"
proof -
  let ?tbl = "heap s ! a"
  let ?s1 = "s\<lparr>heap := heap s @ [?tbl]\<rparr>"
  let ?R = "return_chart_data_store indicator_name mode selected_country s"
  let ?V = "return_chart_data (stored_tables s) indicator_name mode selected_country"
  have n: "new_frame ?tbl s = (length (heap s), ?s1)" by (simp add: new_frame_def)
  have t: "stored_tables s indicator_name = Some ?tbl"
    using assms by (simp add: stored_tables_def)
  have h: "heap ?s1 ! length (heap s) = ?tbl" by simp
  have e: "call_returns s (Inl x, ?s1) (Inl x)" for x
    by (rule call_returns_error)
  have m: "call_returns s
      (then_call (method_call (\<lambda>df. Inr (getitem_mask msk df)) (length (heap s)) ?s1) g)
      (g (getitem_mask msk ?tbl))" for msk g
    by (rule call_returns_chain_eq) simp
  note unfold = return_chart_data_store_def return_chart_data_def assms n t h
  show ?thesis
  proof (cases "mode = ''top10'' \<or> (mode = ''country'' \<and> selected_country = None)")
    case True
    then show ?thesis
      by (simp add: unfold call_returns_chain)
  next
    case False
    then have topc:
      "(mode = ''top10'' \<or> (mode = ''country'' \<and> selected_country = None)) = False"
      by simp
    note unfold = unfold topc
    show ?thesis
    proof (cases "getitem ''Country'' Country ?tbl")
      case (Inl x)
      then show ?thesis
        by (simp add: unfold e)
    next
      case countries: (Inr countries)
      show ?thesis
      proof (cases "isin selected_country countries")
        case absent: False
        have "call_returns s (Inr (length (heap s) + length [?tbl]),
                 s\<lparr>heap := heap s @ [?tbl]
                    @ [empty_frame [''Country'', ''Value'', ''Rank'', ''Country_with_rank'']]\<rparr>)
               (Inr (empty_frame [''Country'', ''Value'', ''Rank'', ''Country_with_rank'']))"
          by (rule call_returns_new)
        with countries absent show ?thesis
          by (simp add: unfold new_frame_def)
      next
        case True
        show ?thesis
        proof (cases "loc (map (\<lambda>c. Some c = selected_country) countries) ''Rank'' Rank ?tbl")
          case (Inl x)
          with countries True show ?thesis
            by (simp add: unfold e)
        next
          case matching: (Inr matching_ranks)
          show ?thesis
          proof (cases "iloc0 matching_ranks")
            case (Inl x)
            with countries True matching show ?thesis
              by (simp add: unfold e)
          next
            case rank: (Inr selected_country_rank)
            show ?thesis
            proof (cases "getitem ''Rank'' Rank ?tbl")
              case (Inl x)
              with countries True matching rank show ?thesis
                by (simp add: unfold e)
            next
              case (Inr ranks)
              with countries True matching rank show ?thesis
                by (simp add: unfold call_returns_chain m Let_def)
            qed
          qed
        qed
      qed
    qed
  qed
qed

lemma return_chart_data_same_table:
  assumes "indicator_dfs indicator_name = indicator_dfs' indicator_name"
  shows "return_chart_data indicator_dfs indicator_name mode selected_country
           = return_chart_data indicator_dfs' indicator_name mode selected_country"
  using assms by (simp add: return_chart_data_def)

section \<open>The claims\<close>

text \<open>
  C2. When the mode is \<^verbatim>\<open>top10\<close>, or the mode is \<^verbatim>\<open>country\<close> and no country has been chosen
  (\<^verbatim>\<open>selected_country is None\<close>), the selection returns \<open>min 10 |table|\<close> rows of the table;
  they are rows with the largest values (no row left out has a larger value than a returned
  row), and of any two returned rows the earlier one has the smaller or equal value.
\<close>

theorem top_ten_selection:
  assumes "indicator_dfs indicator_name = Some tbl"
    and "''Value'' \<in> set (columns tbl)"
    and "mode = ''top10'' \<or> (mode = ''country'' \<and> selected_country = None)"
  shows "\<exists>res. return_chart_data indicator_dfs indicator_name mode selected_country = Inr res
     \<and> length (rows res) = min 10 (length (rows tbl))
     \<and> mset (rows res) \<subseteq># mset (rows tbl)
     \<and> (\<forall>b \<in> set (rows res). \<forall>a \<in># mset (rows tbl) - mset (rows res). Value a \<le> Value b)
     \<and> sorted_wrt (\<lambda>a b. Value a \<le> Value b) (rows res)"
proof -
  have "return_chart_data indicator_dfs indicator_name mode selected_country =
          Inr (tbl\<lparr>rows := argsort_rows Value True
                              (take 10 (argsort_rows Value False (rows tbl)))\<rparr>)"
    using assms by (rule return_chart_data_top)
  then show ?thesis
    using largest_rows [where k = Value and n = 10 and xs = "rows tbl"] by simp
qed

theorem top_ten_selection_witness:
  "example_dfs ''Population'' = Some example_table
   \<and> ''Value'' \<in> set (columns example_table)
   \<and> (\<exists>res. return_chart_data example_dfs ''Population'' ''country'' None = Inr res
     \<and> length (rows res) = min 10 (length (rows example_table))
     \<and> mset (rows res) \<subseteq># mset (rows example_table)
     \<and> (\<forall>b \<in> set (rows res). \<forall>a \<in># mset (rows example_table) - mset (rows res).
           Value a \<le> Value b)
     \<and> sorted_wrt (\<lambda>a b. Value a \<le> Value b) (rows res))"
proof -
  have h1: "example_dfs ''Population'' = Some example_table"
    by (simp add: example_dfs_def)
  have h2: "''Value'' \<in> set (columns example_table)"
    by (simp add: example_table_def)
  have h3: "''country'' = ''top10'' \<or> (''country'' = ''country'' \<and> (None :: string option) = None)"
    by simp
  show ?thesis
    using top_ten_selection [where indicator_dfs = example_dfs and tbl = example_table,
        OF h1 h2 h3] h1 h2 by simp
qed

text \<open>
  C1. In a table whose ranks are \<open>1, \<dots>, N\<close>, for a country \<open>c\<close> of the table with rank \<open>r\<close>,
  \<open>10 < r < N - 10\<close>, the selection in mode \<^verbatim>\<open>country\<close> returns exactly the 10 rows whose rank
  lies in \<open>[r - 5, r + 4]\<close>, in ascending order of rank (the ranks of the result are
  \<open>r - 5, \<dots>, r + 4\<close> in this order), and the row of \<open>c\<close> is among them.
\<close>

theorem neighbours_around_country:
  assumes "indicator_dfs indicator_name = Some tbl"
    and "indicator_table tbl"
    and "x \<in> set (rows tbl)" and "Country x = c" and "Rank x = r"
    and "10 < r" and "r < int (length (rows tbl)) - 10"
  shows "\<exists>res. return_chart_data indicator_dfs indicator_name ''country'' (Some c) = Inr res
     \<and> length (rows res) = 10
     \<and> set (rows res) = {y \<in> set (rows tbl). r - 5 \<le> Rank y \<and> Rank y \<le> r + 4}
     \<and> map Rank (rows res) = [r - 5..r + 4]
     \<and> sorted_wrt (\<lambda>a b. Rank a < Rank b) (rows res)
     \<and> x \<in> set (rows res)"
proof -
  let ?ys = "argsort_rows Rank True
               (filter (\<lambda>y. r - 5 \<le> Rank y \<and> Rank y \<le> r + 4) (rows tbl))"
  have "''country'' \<noteq> ''top10''" by simp
  with assms(1,2,3)
  have "return_chart_data indicator_dfs indicator_name ''country'' (Some (Country x)) =
     Inr (tbl\<lparr>rows :=
        (if Rank x \<le> 10
           then argsort_rows Value True (take 10 (argsort_rows Value False (rows tbl)))
         else if int (length (rows tbl)) - 10 \<le> Rank x
           then argsort_rows Value True (take 10 (argsort_rows Value True (rows tbl)))
         else argsort_rows Rank True
                (filter (\<lambda>y. Rank x - 5 \<le> Rank y \<and> Rank y \<le> Rank x + 4) (rows tbl)))\<rparr>)"
    by (rule return_chart_data_indicator_table)
  then have res: "return_chart_data indicator_dfs indicator_name ''country'' (Some c) =
      Inr (tbl\<lparr>rows := ?ys\<rparr>)"
    using assms(4-7) by simp
  have lo: "1 \<le> r - 5" and hi: "r + 4 \<le> int (length (rows tbl))"
    using assms(6,7) by simp_all
  have ranks: "map Rank ?ys = [r - 5..r + 4]"
    and elems: "set ?ys = {y \<in> set (rows tbl). r - 5 \<le> Rank y \<and> Rank y \<le> r + 4}"
    using neighbour_rows [OF assms(2) lo hi] by simp_all
  have "length (map Rank ?ys) = 10" unfolding ranks by simp
  then have len: "length ?ys = 10" by simp
  have "sorted_wrt (<) (map Rank ?ys)"
    unfolding ranks by (simp add: strict_sorted_iff)
  then have ord: "sorted_wrt (\<lambda>a b. Rank a < Rank b) ?ys"
    by (simp add: sorted_wrt_map)
  have mem: "x \<in> set ?ys"
    unfolding elems using assms(3,5) by simp
  show ?thesis
    unfolding res using len elems ranks ord mem by simp
qed

theorem neighbours_around_country_witness:
  "example_dfs ''Population'' = Some example_table
   \<and> indicator_table example_table
   \<and> example_row (12, ''Japan'') \<in> set (rows example_table)
   \<and> Country (example_row (12, ''Japan'')) = ''Japan''
   \<and> Rank (example_row (12, ''Japan'')) = 12
   \<and> (10 :: int) < 12 \<and> 12 < int (length (rows example_table)) - 10
   \<and> (\<exists>res. return_chart_data example_dfs ''Population'' ''country'' (Some ''Japan'') = Inr res
     \<and> length (rows res) = 10
     \<and> set (rows res) = {y \<in> set (rows example_table). 12 - 5 \<le> Rank y \<and> Rank y \<le> 12 + 4}
     \<and> map Rank (rows res) = [12 - 5..12 + 4]
     \<and> sorted_wrt (\<lambda>a b. Rank a < Rank b) (rows res)
     \<and> example_row (12, ''Japan'') \<in> set (rows res))"
proof -
  have h3: "example_row (12, ''Japan'') \<in> set (rows example_table)" by code_simp
  have h4: "Country (example_row (12, ''Japan'')) = ''Japan''" by (simp add: example_row_def)
  have h5: "Rank (example_row (12, ''Japan'')) = 12" by (simp add: example_row_def)
  have h6: "(10 :: int) < 12" by simp
  have h7: "12 < int (length (rows example_table)) - 10" by code_simp
  show ?thesis
    using neighbours_around_country [where indicator_dfs = example_dfs and tbl = example_table,
        OF example_dfs_Population example_table_ok h3 h4 h5 h6 h7]
      example_dfs_Population example_table_ok h3 h4 h5 h6 h7
    by blast
qed

text \<open>
  C3. In a table whose ranks are \<open>1, \<dots>, N\<close>, for a country \<open>c\<close> of the table with rank \<open>r\<close>,
  \<open>r > 10\<close> and \<open>r \<ge> N - 10\<close>, the selection in mode \<^verbatim>\<open>country\<close> returns 10 rows of the
  table with the smallest values (no row left out has a smaller value than a returned row),
  in ascending order of value.
\<close>

theorem bottom_ten_selection:
  assumes "indicator_dfs indicator_name = Some tbl"
    and "indicator_table tbl"
    and "x \<in> set (rows tbl)" and "Country x = c" and "Rank x = r"
    and "10 < r" and "int (length (rows tbl)) - 10 \<le> r"
  shows "\<exists>res. return_chart_data indicator_dfs indicator_name ''country'' (Some c) = Inr res
     \<and> length (rows res) = 10
     \<and> mset (rows res) \<subseteq># mset (rows tbl)
     \<and> (\<forall>b \<in> set (rows res). \<forall>a \<in># mset (rows tbl) - mset (rows res). Value b \<le> Value a)
     \<and> sorted_wrt (\<lambda>a b. Value a \<le> Value b) (rows res)"
proof -
  let ?ys = "argsort_rows Value True (take 10 (argsort_rows Value True (rows tbl)))"
  have "''country'' \<noteq> ''top10''" by simp
  with assms(1,2,3)
  have "return_chart_data indicator_dfs indicator_name ''country'' (Some (Country x)) =
     Inr (tbl\<lparr>rows :=
        (if Rank x \<le> 10
           then argsort_rows Value True (take 10 (argsort_rows Value False (rows tbl)))
         else if int (length (rows tbl)) - 10 \<le> Rank x
           then argsort_rows Value True (take 10 (argsort_rows Value True (rows tbl)))
         else argsort_rows Rank True
                (filter (\<lambda>y. Rank x - 5 \<le> Rank y \<and> Rank y \<le> Rank x + 4) (rows tbl)))\<rparr>)"
    by (rule return_chart_data_indicator_table)
  then have res: "return_chart_data indicator_dfs indicator_name ''country'' (Some c) =
      Inr (tbl\<lparr>rows := ?ys\<rparr>)"
    using assms(4-7) by simp
  have "r \<le> int (length (rows tbl))"
    using indicator_table_rank_range(2) [OF assms(2,3)] assms(5) by simp
  with assms(6) have "min 10 (length (rows tbl)) = 10" by simp
  then show ?thesis
    unfolding res
    using smallest_rows [where k = Value and n = 10 and xs = "rows tbl"] by simp
qed

theorem bottom_ten_selection_witness:
  "example_dfs ''Population'' = Some example_table
   \<and> indicator_table example_table
   \<and> example_row (20, ''Tanzania'') \<in> set (rows example_table)
   \<and> Country (example_row (20, ''Tanzania'')) = ''Tanzania''
   \<and> Rank (example_row (20, ''Tanzania'')) = 20
   \<and> (10 :: int) < 20 \<and> int (length (rows example_table)) - 10 \<le> 20
   \<and> (\<exists>res. return_chart_data example_dfs ''Population'' ''country'' (Some ''Tanzania'') = Inr res
     \<and> length (rows res) = 10
     \<and> mset (rows res) \<subseteq># mset (rows example_table)
     \<and> (\<forall>b \<in> set (rows res). \<forall>a \<in># mset (rows example_table) - mset (rows res).
           Value b \<le> Value a)
     \<and> sorted_wrt (\<lambda>a b. Value a \<le> Value b) (rows res))"
proof -
  have h3: "example_row (20, ''Tanzania'') \<in> set (rows example_table)" by code_simp
  have h4: "Country (example_row (20, ''Tanzania'')) = ''Tanzania''"
    by (simp add: example_row_def)
  have h5: "Rank (example_row (20, ''Tanzania'')) = 20" by (simp add: example_row_def)
  have h6: "(10 :: int) < 20" by simp
  have h7: "int (length (rows example_table)) - 10 \<le> 20" by code_simp
  show ?thesis
    using bottom_ten_selection [where indicator_dfs = example_dfs and tbl = example_table,
        OF example_dfs_Population example_table_ok h3 h4 h5 h6 h7]
      example_dfs_Population example_table_ok h3 h4 h5 h6 h7
    by blast
qed

text \<open>
  C4. For a country \<open>c\<close> of the table with rank at most 10, the selection in mode
  \<^verbatim>\<open>country\<close> returns the same as the selection in mode \<^verbatim>\<open>top10\<close>: the rows with the
  largest values, at most 10 of them, in ascending order of value.
\<close>

theorem top_ranked_country_shows_top_ten:
  assumes "indicator_dfs indicator_name = Some tbl"
    and "set [''Country'', ''Value'', ''Rank''] \<subseteq> set (columns tbl)"
    and "distinct (map Country (rows tbl))"
    and "x \<in> set (rows tbl)" and "Country x = c" and "Rank x \<le> 10"
  shows "return_chart_data indicator_dfs indicator_name ''country'' (Some c)
           = return_chart_data indicator_dfs indicator_name ''top10'' selected_country
     \<and> (\<exists>res. return_chart_data indicator_dfs indicator_name ''country'' (Some c) = Inr res
          \<and> length (rows res) = min 10 (length (rows tbl))
          \<and> mset (rows res) \<subseteq># mset (rows tbl)
          \<and> (\<forall>b \<in> set (rows res). \<forall>a \<in># mset (rows tbl) - mset (rows res).
                Value a \<le> Value b)
          \<and> sorted_wrt (\<lambda>a b. Value a \<le> Value b) (rows res))"
proof -
  let ?ys = "argsort_rows Value True (take 10 (argsort_rows Value False (rows tbl)))"
  have cols: "''Country'' \<in> set (columns tbl)" "''Rank'' \<in> set (columns tbl)"
    "''Value'' \<in> set (columns tbl)"
    using assms(2) by simp_all
  have "''country'' \<noteq> ''top10''" by simp
  with assms(1) cols assms(3,4)
  have "return_chart_data indicator_dfs indicator_name ''country'' (Some (Country x)) =
     Inr (tbl\<lparr>rows :=
        (if Rank x \<le> 10
           then argsort_rows Value True (take 10 (argsort_rows Value False (rows tbl)))
         else if (case series_max (map Rank (rows tbl)) of
                    None \<Rightarrow> False | Some n \<Rightarrow> n - 10 \<le> Rank x)
           then argsort_rows Value True (take 10 (argsort_rows Value True (rows tbl)))
         else argsort_rows Rank True
                (filter (\<lambda>y. Rank x - 5 \<le> Rank y \<and> Rank y \<le> Rank x + 4) (rows tbl)))\<rparr>)"
    by (rule return_chart_data_present)
  then have country: "return_chart_data indicator_dfs indicator_name ''country'' (Some c) =
      Inr (tbl\<lparr>rows := ?ys\<rparr>)"
    using assms(5,6) by simp
  have "''top10'' = ''top10'' \<or> (''top10'' = ''country'' \<and> selected_country = None)" by simp
  with assms(1) cols(3)
  have top: "return_chart_data indicator_dfs indicator_name ''top10'' selected_country =
      Inr (tbl\<lparr>rows := ?ys\<rparr>)"
    by (rule return_chart_data_top)
  show ?thesis
    unfolding country top
    using largest_rows [where k = Value and n = 10 and xs = "rows tbl"] by simp
qed

theorem top_ranked_country_shows_top_ten_witness:
  "example_dfs ''Population'' = Some example_table
   \<and> set [''Country'', ''Value'', ''Rank''] \<subseteq> set (columns example_table)
   \<and> distinct (map Country (rows example_table))
   \<and> example_row (3, ''United States'') \<in> set (rows example_table)
   \<and> Country (example_row (3, ''United States'')) = ''United States''
   \<and> Rank (example_row (3, ''United States'')) \<le> 10
   \<and> return_chart_data example_dfs ''Population'' ''country'' (Some ''United States'')
           = return_chart_data example_dfs ''Population'' ''top10'' None
   \<and> (\<exists>res. return_chart_data example_dfs ''Population'' ''country'' (Some ''United States'')
              = Inr res
          \<and> length (rows res) = min 10 (length (rows example_table))
          \<and> mset (rows res) \<subseteq># mset (rows example_table)
          \<and> (\<forall>b \<in> set (rows res). \<forall>a \<in># mset (rows example_table) - mset (rows res).
                Value a \<le> Value b)
          \<and> sorted_wrt (\<lambda>a b. Value a \<le> Value b) (rows res))"
proof -
  have h2: "set [''Country'', ''Value'', ''Rank''] \<subseteq> set (columns example_table)"
    by (simp add: example_table_def)
  have h3: "distinct (map Country (rows example_table))" by code_simp
  have h4: "example_row (3, ''United States'') \<in> set (rows example_table)" by code_simp
  have h5: "Country (example_row (3, ''United States'')) = ''United States''"
    by (simp add: example_row_def)
  have h6: "Rank (example_row (3, ''United States'')) \<le> 10" by (simp add: example_row_def)
  show ?thesis
    using top_ranked_country_shows_top_ten [where indicator_dfs = example_dfs
        and tbl = example_table and selected_country = None,
        OF example_dfs_Population h2 h3 h4 h5 h6]
      example_dfs_Population h2 h3 h4 h5 h6
    by blast
qed

text \<open>
  C5. For a country \<open>c\<close> that is not in the table, the selection in mode \<^verbatim>\<open>country\<close> returns a
  frame without rows; and for a table with the columns the program reads, the selection
  returns a frame, never an error, whatever the mode and the selected country.
\<close>

theorem absent_country_empty_result:
  assumes "indicator_dfs indicator_name = Some tbl"
    and "set [''Country'', ''Value'', ''Rank''] \<subseteq> set (columns tbl)"
  shows "(c \<notin> set (map Country (rows tbl)) \<longrightarrow>
            (\<exists>res. return_chart_data indicator_dfs indicator_name ''country'' (Some c) = Inr res
                   \<and> rows res = []))
     \<and> (\<exists>res. return_chart_data indicator_dfs indicator_name mode selected_country = Inr res)"
proof (intro conjI impI)
  assume absent: "c \<notin> set (map Country (rows tbl))"
  have c: "''Country'' \<in> set (columns tbl)" using assms(2) by simp
  have m: "\<not> (''country'' = ''top10'' \<or> (''country'' = ''country'' \<and> Some c = None))" by simp
  have i: "\<not> isin (Some c) (map Country (rows tbl))" using absent by (simp add: isin_def)
  have "return_chart_data indicator_dfs indicator_name ''country'' (Some c) =
           Inr (empty_frame [''Country'', ''Value'', ''Rank'', ''Country_with_rank''])"
    using assms(1) c m i by (rule return_chart_data_absent)
  then show "\<exists>res. return_chart_data indicator_dfs indicator_name ''country'' (Some c) = Inr res
                   \<and> rows res = []"
    by (simp add: empty_frame_def)
next
  show "\<exists>res. return_chart_data indicator_dfs indicator_name mode selected_country = Inr res"
    using assms by (rule return_chart_data_succeeds)
qed

theorem absent_country_empty_result_witness:
  "example_dfs ''Population'' = Some example_table
   \<and> set [''Country'', ''Value'', ''Rank''] \<subseteq> set (columns example_table)
   \<and> ''Atlantis'' \<notin> set (map Country (rows example_table))
   \<and> (\<exists>res. return_chart_data example_dfs ''Population'' ''country'' (Some ''Atlantis'') = Inr res
           \<and> rows res = [])
   \<and> (\<exists>res. return_chart_data example_dfs ''Population'' ''country'' (Some ''Japan'') = Inr res)"
proof -
  have h2: "set [''Country'', ''Value'', ''Rank''] \<subseteq> set (columns example_table)"
    by (simp add: example_table_def)
  have h3: "''Atlantis'' \<notin> set (map Country (rows example_table))" by code_simp
  show ?thesis
    using absent_country_empty_result [where indicator_dfs = example_dfs
        and tbl = example_table and c = "''Atlantis''" and mode = "''country''"
        and selected_country = "Some ''Japan''", OF example_dfs_Population h2]
      example_dfs_Population h2 h3
    by blast
qed

text \<open>
  C8. The selection never raises \<^verbatim>\<open>IndexError\<close>, for any dictionary of tables, indicator name,
  mode and selected country: the rank lookup \<^verbatim>\<open>.iloc[0]\<close> is reached only after the membership
  test has succeeded, and then the series it indexes has at least one element.
\<close>

theorem rank_lookup_never_fails:
  "return_chart_data indicator_dfs indicator_name mode selected_country \<noteq> Inl IndexError
   \<and> (getitem ''Country'' Country tbl = Inr countries
        \<and> isin selected_country countries
        \<and> loc (map (\<lambda>c. Some c = selected_country) countries) ''Rank'' Rank tbl
            = Inr matching_ranks
      \<longrightarrow> (\<exists>r. iloc0 matching_ranks = Inr r))"
proof (intro conjI impI)
  assume a: "getitem ''Country'' Country tbl = Inr countries
        \<and> isin selected_country countries
        \<and> loc (map (\<lambda>c. Some c = selected_country) countries) ''Rank'' Rank tbl
            = Inr matching_ranks"
  then have c: "countries = map Country (rows tbl)"
    by (auto simp: getitem_def split: if_splits)
  with a have "matching_ranks = map Rank (boolean_mask (map (\<lambda>c. Some c = selected_country)
            (map Country (rows tbl))) (rows tbl))"
    by (auto simp: loc_def split: if_splits)
  moreover have "isin selected_country (map Country (rows tbl))" using a c by simp
  ultimately have "matching_ranks \<noteq> []"
    using matching_ranks_nonempty by simp
  then show "\<exists>r. iloc0 matching_ranks = Inr r" by (rule iloc0_nonempty)
next
  show "return_chart_data indicator_dfs indicator_name mode selected_country \<noteq> Inl IndexError"
  proof (cases "indicator_dfs indicator_name")
    case None
    then show ?thesis by (simp add: return_chart_data_def)
  next
    case (Some df)
    show ?thesis
    proof (cases "mode = ''top10'' \<or> (mode = ''country'' \<and> selected_country = None)")
      case True
      with Some show ?thesis
        by (auto simp: return_chart_data_def nlargest_def sort_values_def)
    next
      case False
      from found_or_absent [OF False, of df] show ?thesis
      proof (elim disjE exE conjE)
        assume "\<not> isin selected_country (map Country (rows df))"
        with Some False show ?thesis
          by (auto simp: return_chart_data_def getitem_def)
      next
        fix c x xs
        assume sel: "selected_country = Some c" and m: "mode \<noteq> ''top10''"
          and f: "filter (\<lambda>y. Country y = c) (rows df) = x # xs"
        have "x \<in> set (filter (\<lambda>y. Country y = c) (rows df))"
          unfolding f by simp
        then have i: "isin (Some c) (map Country (rows df))"
          by (auto simp: isin_def)
        show ?thesis
          unfolding sel using Some m i
          by (simp add: return_chart_data_def getitem_def loc_def f iloc0_def nlargest_def
                nsmallest_def sort_values_def getitem_mask_def boolean_mask_filter comp_def
                Let_def)
      qed
    qed
  qed
qed

theorem rank_lookup_never_fails_witness:
  "return_chart_data example_dfs ''Population'' ''country'' (Some ''Japan'') \<noteq> Inl IndexError
   \<and> getitem ''Country'' Country example_table = Inr example_countries
   \<and> isin (Some ''Japan'') example_countries
   \<and> loc (map (\<lambda>c. Some c = Some ''Japan'') example_countries) ''Rank'' Rank example_table
        = Inr [12]
   \<and> (\<exists>r. iloc0 [12 :: int] = Inr r)"
proof -
  have h1: "getitem ''Country'' Country example_table = Inr example_countries" by code_simp
  have h2: "isin (Some ''Japan'') example_countries" by code_simp
  have h3: "loc (map (\<lambda>c. Some c = Some ''Japan'') example_countries) ''Rank'' Rank
              example_table = Inr [12]"
    by code_simp
  show ?thesis
    using rank_lookup_never_fails [where indicator_dfs = example_dfs
        and indicator_name = "''Population''" and mode = "''country''"
        and selected_country = "Some ''Japan''" and tbl = example_table
        and countries = example_countries and matching_ranks = "[12]"]
      h1 h2 h3
    by blast
qed

text \<open>
  C9. When the selected country is not in the table, the selection returns a frame without rows
  that has exactly the four columns \<^verbatim>\<open>Country\<close>, \<^verbatim>\<open>Value\<close>, \<^verbatim>\<open>Rank\<close> and \<^verbatim>\<open>Country_with_rank\<close>.
  What the callers do next succeeds on it: sorting by \<^verbatim>\<open>Rank\<close> in either direction returns the
  frame itself, the projection on \<^verbatim>\<open>Country_with_rank\<close> returns an empty frame, the chart is
  given the empty frame and the list of countries is empty.
\<close>

theorem empty_result_keeps_columns:
  assumes "indicator_dfs indicator_name = Some tbl"
    and "''Country'' \<in> set (columns tbl)"
    and "\<not> (mode = ''top10'' \<or> (mode = ''country'' \<and> selected_country = None))"
    and "\<not> isin selected_country (map Country (rows tbl))"
  shows "\<exists>res. return_chart_data indicator_dfs indicator_name mode selected_country = Inr res
     \<and> columns res = [''Country'', ''Value'', ''Rank'', ''Country_with_rank'']
     \<and> rows res = []
     \<and> sort_values ''Rank'' Rank ascending res = Inr res
     \<and> getitem_columns [''Country_with_rank''] res
           = Inr (empty_frame [''Country_with_rank''])
     \<and> create_bar_chart_frame indicator_dfs indicator_name mode selected_country = Inr res
     \<and> create_countries_list indicator_dfs indicator_name mode selected_country = Inr []"
proof -
  let ?res = "empty_frame [''Country'', ''Value'', ''Rank'', ''Country_with_rank'']"
  have r: "return_chart_data indicator_dfs indicator_name mode selected_country = Inr ?res"
    using assms by (rule return_chart_data_absent)
  have s: "sort_values ''Rank'' Rank asc ?res = Inr ?res" for asc
    by (simp add: sort_values_def empty_frame_def argsort_rows_def)
  have g: "getitem_columns [''Country_with_rank''] ?res = Inr (empty_frame [''Country_with_rank''])"
    by (simp add: getitem_columns_def empty_frame_def)
  have b: "create_bar_chart_frame indicator_dfs indicator_name mode selected_country = Inr ?res"
    by (simp add: create_bar_chart_frame_def r s)
  have l: "create_countries_list indicator_dfs indicator_name mode selected_country = Inr []"
    by (simp add: create_countries_list_def r s g) (simp add: empty_frame_def)
  have c: "columns ?res = [''Country'', ''Value'', ''Rank'', ''Country_with_rank'']"
    and e: "rows ?res = []"
    by (simp_all add: empty_frame_def)
  show ?thesis
    using r c e s g b l by blast
qed

theorem empty_result_keeps_columns_witness:
  "example_dfs ''Population'' = Some example_table
   \<and> ''Country'' \<in> set (columns example_table)
   \<and> \<not> (''country'' = ''top10'' \<or> (''country'' = ''country'' \<and> Some ''Atlantis'' = None))
   \<and> \<not> isin (Some ''Atlantis'') (map Country (rows example_table))
   \<and> (\<exists>res. return_chart_data example_dfs ''Population'' ''country'' (Some ''Atlantis'') = Inr res
     \<and> columns res = [''Country'', ''Value'', ''Rank'', ''Country_with_rank'']
     \<and> rows res = []
     \<and> sort_values ''Rank'' Rank False res = Inr res
     \<and> getitem_columns [''Country_with_rank''] res
           = Inr (empty_frame [''Country_with_rank''])
     \<and> create_bar_chart_frame example_dfs ''Population'' ''country'' (Some ''Atlantis'') = Inr res
     \<and> create_countries_list example_dfs ''Population'' ''country'' (Some ''Atlantis'') = Inr [])"
proof -
  have h2: "''Country'' \<in> set (columns example_table)" by (simp add: example_table_def)
  have h3: "\<not> (''country'' = ''top10''
              \<or> (''country'' = ''country'' \<and> Some ''Atlantis'' = None))"
    by simp
  have h4: "\<not> isin (Some ''Atlantis'') (map Country (rows example_table))" by code_simp
  show ?thesis
    using empty_result_keeps_columns [where indicator_dfs = example_dfs
        and tbl = example_table and ascending = False, OF example_dfs_Population h2 h3 h4]
      example_dfs_Population h2 h3 h4
    by blast
qed

text \<open>
  C10. Every call the callback \<^verbatim>\<open>update_all\<close> makes to \<^verbatim>\<open>create_chart\<close> and to
  \<^verbatim>\<open>return_chart_data\<close> passes the country unchanged and a normalised mode: \<^verbatim>\<open>country\<close> exactly
  when the mode is \<^verbatim>\<open>country\<close> and the country is truthy, \<^verbatim>\<open>top10\<close> otherwise. Hence a call
  that does not take the top-ten branch of the selection carries a country that is a
  non-empty string.
\<close>

theorem update_all_normalises_mode:
  "\<forall>cl \<in> set (update_all mode country chart_ids table_ids).
      call_country cl = country
    \<and> (call_mode cl = ''country'' \<longleftrightarrow> mode = ''country'' \<and> truthy country)
    \<and> (call_mode cl \<noteq> ''country'' \<longrightarrow> call_mode cl = ''top10'')
    \<and> (\<not> (call_mode cl = ''top10'' \<or> (call_mode cl = ''country'' \<and> call_country cl = None))
         \<longrightarrow> (\<exists>c. call_country cl = Some c \<and> c \<noteq> []))"
  by (auto simp: update_all_def Let_def truthy_def split: option.splits)

theorem update_all_normalises_mode_witness:
  "Return_chart_data ''Population'' ''country'' (Some ''Japan'')
     \<in> set (update_all ''country'' (Some ''Japan'') [''Population''] [''Population''])
   \<and> call_country (Return_chart_data ''Population'' ''country'' (Some ''Japan'')) = Some ''Japan''
   \<and> call_mode (Return_chart_data ''Population'' ''country'' (Some ''Japan'')) = ''country''
   \<and> ''country'' = ''country'' \<and> truthy (Some ''Japan'')
   \<and> (\<exists>c. call_country (Return_chart_data ''Population'' ''country'' (Some ''Japan'')) = Some c
          \<and> c \<noteq> [])"
proof -
  have h: "Return_chart_data ''Population'' ''country'' (Some ''Japan'')
     \<in> set (update_all ''country'' (Some ''Japan'') [''Population''] [''Population''])"
    by (simp add: update_all_def truthy_def Let_def)
  show ?thesis
    using update_all_normalises_mode [of "''country''" "Some ''Japan''" "[''Population'']"
        "[''Population'']", THEN bspec, OF h] h
    by simp
qed

text \<open>
  C6 as stated says that the result has no rows only when the mode is \<^verbatim>\<open>country\<close> and the country
  is not in the table. For the empty table, which the claim admits, the selection in mode
  \<^verbatim>\<open>top10\<close> returns no rows either.
\<close>

theorem zero_rows_counterexample:
  "indicator_table empty_table
   \<and> return_chart_data [''Population'' \<mapsto> empty_table] ''Population'' ''top10'' None
         = Inr empty_table
   \<and> rows empty_table = []
   \<and> ''top10'' \<noteq> ''country''"
proof -
  have "indicator_table empty_table"
    by (simp add: indicator_table_def empty_table_def)
  moreover have "return_chart_data [''Population'' \<mapsto> empty_table] ''Population'' ''top10'' None
         = Inr empty_table"
    by (simp add: return_chart_data_def nlargest_def sort_values_def argsort_rows_def
          empty_table_def)
  moreover have "rows empty_table = []" by (simp add: empty_table_def)
  ultimately show ?thesis by simp
qed

text \<open>
  C6, amended. For a table with distinct countries and ranks \<open>1, \<dots>, N\<close>, the result of the
  selection has at most 10 rows, and it has no rows only when the table has none, or when the
  top-ten branch is not taken and the selected country is not in the table.
\<close>

theorem at_most_ten_rows:
  assumes "indicator_dfs indicator_name = Some tbl"
    and "indicator_table tbl"
    and "return_chart_data indicator_dfs indicator_name mode selected_country = Inr res"
  shows "length (rows res) \<le> 10
     \<and> (rows res = [] \<longrightarrow>
           rows tbl = []
         \<or> (\<not> (mode = ''top10'' \<or> (mode = ''country'' \<and> selected_country = None))
            \<and> \<not> isin selected_country (map Country (rows tbl))))"
proof (cases "mode = ''top10'' \<or> (mode = ''country'' \<and> selected_country = None)")
  case True
  let ?ys = "argsort_rows Value True (take 10 (argsort_rows Value False (rows tbl)))"
  have "return_chart_data indicator_dfs indicator_name mode selected_country =
          Inr (tbl\<lparr>rows := ?ys\<rparr>)"
    using assms(1) indicator_table_columns(2) [OF assms(2)] True
    by (rule return_chart_data_top)
  with assms(3) have res: "rows res = ?ys" by auto
  have len: "length ?ys = min 10 (length (rows tbl))"
    using largest_rows(1) [where k = Value and n = 10 and xs = "rows tbl"] by simp
  show ?thesis
    unfolding res using len by (cases "rows tbl") auto
next
  case False
  from found_or_absent [OF False, of tbl] show ?thesis
  proof (elim disjE exE conjE)
    assume absent: "\<not> isin selected_country (map Country (rows tbl))"
    have "return_chart_data indicator_dfs indicator_name mode selected_country =
           Inr (empty_frame [''Country'', ''Value'', ''Rank'', ''Country_with_rank''])"
      using assms(1) indicator_table_columns(1) [OF assms(2)] False absent
      by (rule return_chart_data_absent)
    with assms(3) have "rows res = []" by (auto simp: empty_frame_def)
    with False absent show ?thesis by simp
  next
    fix c x xs
    assume sel: "selected_country = Some c" and m: "mode \<noteq> ''top10''"
      and f: "filter (\<lambda>y. Country y = c) (rows tbl) = x # xs"
    have "x \<in> set (filter (\<lambda>y. Country y = c) (rows tbl))"
      unfolding f by simp
    then have x: "x \<in> set (rows tbl)" and c: "Country x = c" by simp_all
    let ?top = "argsort_rows Value True (take 10 (argsort_rows Value False (rows tbl)))"
    let ?bottom = "argsort_rows Value True (take 10 (argsort_rows Value True (rows tbl)))"
    let ?near = "argsort_rows Rank True
                (filter (\<lambda>y. Rank x - 5 \<le> Rank y \<and> Rank y \<le> Rank x + 4) (rows tbl))"
    have "return_chart_data indicator_dfs indicator_name mode (Some (Country x)) =
       Inr (tbl\<lparr>rows :=
          (if Rank x \<le> 10 then ?top
           else if int (length (rows tbl)) - 10 \<le> Rank x then ?bottom
           else ?near)\<rparr>)"
      using assms(1,2) x m by (rule return_chart_data_indicator_table)
    with assms(3) have res: "rows res =
          (if Rank x \<le> 10 then ?top
           else if int (length (rows tbl)) - 10 \<le> Rank x then ?bottom
           else ?near)"
      unfolding sel c by auto
    have n: "0 < length (rows tbl)" using x by (cases "rows tbl") auto
    have "length ?top = min 10 (length (rows tbl))"
      using largest_rows(1) [where k = Value and n = 10 and xs = "rows tbl"] by simp
    with n have top: "length ?top \<le> 10 \<and> 0 < length ?top" by simp
    have "length ?bottom = min 10 (length (rows tbl))"
      using smallest_rows(1) [where k = Value and n = 10 and xs = "rows tbl"] by simp
    with n have bottom: "length ?bottom \<le> 10 \<and> 0 < length ?bottom" by simp
    have near: "length ?near = 10"
      if "\<not> Rank x \<le> 10" and "\<not> int (length (rows tbl)) - 10 \<le> Rank x"
    proof -
      have lo: "1 \<le> Rank x - 5" and hi: "Rank x + 4 \<le> int (length (rows tbl))"
        using that by simp_all
      have "map Rank ?near = [Rank x - 5..Rank x + 4]"
        using neighbour_rows(1) [OF assms(2) lo hi] by simp
      then have "length (map Rank ?near) = 10" by simp
      then show ?thesis by simp
    qed
    have "length (rows res) \<le> 10 \<and> 0 < length (rows res)"
      unfolding res using top bottom near by (simp del: length_greater_0_conv)
    then show ?thesis by auto
  qed
qed

theorem at_most_ten_rows_witness:
  "example_dfs ''Population'' = Some example_table
   \<and> indicator_table example_table
   \<and> return_chart_data example_dfs ''Population'' ''country'' (Some ''Atlantis'')
        = Inr (empty_frame [''Country'', ''Value'', ''Rank'', ''Country_with_rank''])
   \<and> length (rows (empty_frame [''Country'', ''Value'', ''Rank'', ''Country_with_rank''])) \<le> 10
   \<and> rows (empty_frame [''Country'', ''Value'', ''Rank'', ''Country_with_rank'']) = []
   \<and> rows example_table \<noteq> []
   \<and> \<not> isin (Some ''Atlantis'') (map Country (rows example_table))"
proof -
  have h3: "return_chart_data example_dfs ''Population'' ''country'' (Some ''Atlantis'')
        = Inr (empty_frame [''Country'', ''Value'', ''Rank'', ''Country_with_rank''])"
    by code_simp
  have e: "rows (empty_frame [''Country'', ''Value'', ''Rank'', ''Country_with_rank'']) = []"
    by (simp add: empty_frame_def)
  have ne: "rows example_table \<noteq> []" by code_simp
  show ?thesis
    using at_most_ten_rows [where indicator_dfs = example_dfs and tbl = example_table,
        OF example_dfs_Population example_table_ok h3]
      example_dfs_Population example_table_ok h3 e ne
    by simp
qed

text \<open>
  C7. A call of the selection on a stored table returns, in a new object, the value that the
  selection function computes from the stored tables; a second call with the same arguments,
  made after the first, returns the same frame; and the call leaves the dictionary and every
  existing object as they were, the stored table among them. The reference it returns is
  never the stored table's.
\<close>

theorem return_chart_data_is_pure:
  assumes "indicator_dfs_global s indicator_name = Some a" and "a < length (heap s)"
    and "return_chart_data_store indicator_name mode selected_country s = (r1, s1)"
    and "return_chart_data_store indicator_name mode selected_country s1 = (r2, s2)"
  shows "frame_of s1 r1 = return_chart_data (stored_tables s) indicator_name mode selected_country
     \<and> frame_of s2 r2 = frame_of s1 r1
     \<and> indicator_dfs_global s1 = indicator_dfs_global s
     \<and> take (length (heap s)) (heap s1) = heap s
     \<and> heap s1 ! a = heap s ! a
     \<and> r1 \<noteq> Inr a"
proof -
  let ?V = "\<lambda>s. return_chart_data (stored_tables s) indicator_name mode selected_country"
  have "call_returns s (return_chart_data_store indicator_name mode selected_country s) (?V s)"
    using assms(1) by (rule return_chart_data_store_returns)
  then have c1: "call_returns s (r1, s1) (?V s)" unfolding assms(3) .
  then obtain new where new: "heap s1 = heap s @ new"
    and g1: "indicator_dfs_global s1 = indicator_dfs_global s"
    and f1: "frame_of s1 r1 = ?V s"
    and fresh: "case r1 of Inl e \<Rightarrow> True | Inr a' \<Rightarrow> length (heap s) \<le> a' \<and> a' < length (heap s1)"
    by (auto simp: call_returns_def)
  have same: "heap s1 ! a = heap s ! a"
    using assms(2) by (simp add: new nth_append)
  have a1: "indicator_dfs_global s1 indicator_name = Some a"
    using assms(1) g1 by simp
  have "call_returns s1 (return_chart_data_store indicator_name mode selected_country s1) (?V s1)"
    using a1 by (rule return_chart_data_store_returns)
  then have "call_returns s1 (r2, s2) (?V s1)" unfolding assms(4) .
  then have f2: "frame_of s2 r2 = ?V s1"
    by (simp add: call_returns_def)
  have "stored_tables s1 indicator_name = stored_tables s indicator_name"
    using assms(1) a1 same by (simp add: stored_tables_def)
  then have "?V s1 = ?V s" by (rule return_chart_data_same_table)
  with f1 f2 have eq: "frame_of s2 r2 = frame_of s1 r1" by simp
  have ne: "r1 \<noteq> Inr a"
    using fresh assms(2) by (cases r1) auto
  have pre: "take (length (heap s)) (heap s1) = heap s"
    by (simp add: new)
  show ?thesis
    using f1 eq g1 pre same ne by simp
qed

theorem return_chart_data_is_pure_witness:
  "indicator_dfs_global example_store ''Population'' = Some 0
   \<and> 0 < length (heap example_store)
   \<and> frame_of (snd example_first_call) (fst example_first_call)
        = return_chart_data (stored_tables example_store) ''Population'' ''country''
            (Some ''Japan'')
   \<and> frame_of (snd example_second_call) (fst example_second_call)
        = frame_of (snd example_first_call) (fst example_first_call)
   \<and> indicator_dfs_global (snd example_first_call) = indicator_dfs_global example_store
   \<and> take (length (heap example_store)) (heap (snd example_first_call)) = heap example_store
   \<and> heap (snd example_first_call) ! 0 = heap example_store ! 0
   \<and> fst example_first_call \<noteq> Inr 0
   \<and> fst example_first_call = Inr 3
   \<and> length (heap (snd example_second_call)) = 7"
proof -
  have v1: "fst example_first_call = Inr 3" by code_simp
  have v2: "length (heap (snd example_second_call)) = 7" by code_simp
  have h1: "indicator_dfs_global example_store ''Population'' = Some 0"
    by (simp add: example_store_def)
  have h2: "0 < length (heap example_store)"
    by (simp add: example_store_def)
  have h3: "return_chart_data_store ''Population'' ''country'' (Some ''Japan'') example_store
              = (fst example_first_call, snd example_first_call)"
    by (simp add: example_first_call_def)
  have h4: "return_chart_data_store ''Population'' ''country'' (Some ''Japan'')
              (snd example_first_call)
              = (fst example_second_call, snd example_second_call)"
    by (simp add: example_second_call_def)
  show ?thesis
    using return_chart_data_is_pure [OF h1 h2 h3 h4] h1 h2 v1 v2 by simp
qed

end
